theory Spec2Isabelle
  imports Main "HOL-Library.Word"
begin

unbundle bit_operations_syntax

section \<open>The encrypted-volume lifecycle of \<^verbatim>\<open>luks_linux.c\<close>\<close>

text \<open>
  The file \<^verbatim>\<open>src/internal/infra/security/luks_linux.c\<close> drives \<^verbatim>\<open>cryptsetup\<close>,
  \<^verbatim>\<open>mkfs.ext4\<close>, \<^verbatim>\<open>mount\<close> and \<^verbatim>\<open>umount\<close> through child processes. The embedding
  follows the parent process: every system call it makes is answered by a kernel, which
  is a parameter of the model, and is appended with its answer to a trace. The caller's
  key buffer is passed in and returned, so that its contents after the call can be read.
  The model describes the calls that return: a signal that ends the parent (such as
  \<^verbatim>\<open>SIGPIPE\<close> with its default action) is outside it.
\<close>

subsection \<open>C types\<close>

type_synonym byte = "8 word"
type_synonym size_t = "64 word"
type_synonym ssize_t = "64 word"
type_synonym status = "32 word"
type_synonym fd = nat
type_synonym pid = nat

text \<open>
  A system call either fails, returning \<^verbatim>\<open>-1\<close> and setting \<^verbatim>\<open>errno\<close>, or succeeds
  with a value.
\<close>

datatype 'a sysret = Fail int | Ok 'a

text \<open>
  The program a forked child runs. \<open>Exec argv\<close> is the child branch of
  \<^verbatim>\<open>execute_command\<close> (lines 19 to 22): \<^verbatim>\<open>execvp(argv[0], argv); _exit(127)\<close>.
  \<open>ExecStdin argv rd wr\<close> is the child branch of \<^verbatim>\<open>execute_with_stdin\<close> (lines 40 to
  54): it closes the write end \<open>wr\<close>, makes the read end \<open>rd\<close> its standard input
  (\<^verbatim>\<open>_exit(127)\<close> if that fails), sends standard output and standard error to
  \<^verbatim>\<open>/dev/null\<close>, and then runs \<^verbatim>\<open>execvp(argv[0], argv); _exit(127)\<close>. An argument
  vector is the list of its strings, without the terminating \<^verbatim>\<open>NULL\<close>.
\<close>

datatype child = Exec "string list" | ExecStdin "string list" fd fd

datatype event =
    EvPipe "(fd \<times> fd) sysret"
  | EvFork child "pid sysret"
  | EvClose fd "unit sysret"
  | EvWrite fd "byte list" "size_t sysret"
  | EvWaitpid pid "status sysret"
  | EvMkdir string nat "unit sysret"

text \<open>
  The kernel, seen from the parent process. \<open>sys_fork\<close> answers in the parent: \<open>Ok pid\<close>
  is the child's process id, and the value 0 that \<^verbatim>\<open>fork\<close> returns in the child is
  the child program recorded in the event. \<open>sys_write\<close> answers with the number of bytes
  written, \<open>sys_waitpid\<close> with the status word stored through its second argument.
\<close>

record 'w kernel =
  sys_pipe :: "'w \<Rightarrow> (fd \<times> fd) sysret \<times> 'w"
  sys_fork :: "child \<Rightarrow> 'w \<Rightarrow> pid sysret \<times> 'w"
  sys_close :: "fd \<Rightarrow> 'w \<Rightarrow> unit sysret \<times> 'w"
  sys_write :: "fd \<Rightarrow> byte list \<Rightarrow> 'w \<Rightarrow> size_t sysret \<times> 'w"
  sys_waitpid :: "pid \<Rightarrow> 'w \<Rightarrow> status sysret \<times> 'w"
  sys_mkdir :: "string \<Rightarrow> nat \<Rightarrow> 'w \<Rightarrow> unit sysret \<times> 'w"

text \<open>The state of the parent process: the world outside, the calls made, \<^verbatim>\<open>errno\<close>.\<close>

record 'w proc =
  world :: 'w
  trace :: "event list"
  errno :: int

definition EINVAL :: int where
  "EINVAL = 22"

definition syscall ::
  "('w \<Rightarrow> 'a sysret \<times> 'w) \<Rightarrow> ('a sysret \<Rightarrow> event) \<Rightarrow> 'w proc \<Rightarrow> 'a sysret \<times> 'w proc" where
  "syscall f ev s =
     (case f (world s) of (r, w) \<Rightarrow>
        (r, \<lparr>world = w, trace = trace s @ [ev r],
             errno = (case r of Fail e \<Rightarrow> e | Ok v \<Rightarrow> errno s)\<rparr>))"

definition c_pipe :: "'w kernel \<Rightarrow> 'w proc \<Rightarrow> (fd \<times> fd) sysret \<times> 'w proc" where
  "c_pipe K = syscall (sys_pipe K) EvPipe"

definition c_fork :: "'w kernel \<Rightarrow> child \<Rightarrow> 'w proc \<Rightarrow> pid sysret \<times> 'w proc" where
  "c_fork K c = syscall (sys_fork K c) (EvFork c)"

definition c_close :: "'w kernel \<Rightarrow> fd \<Rightarrow> 'w proc \<Rightarrow> unit sysret \<times> 'w proc" where
  "c_close K f = syscall (sys_close K f) (EvClose f)"

definition c_write :: "'w kernel \<Rightarrow> fd \<Rightarrow> byte list \<Rightarrow> 'w proc \<Rightarrow> size_t sysret \<times> 'w proc" where
  "c_write K f bs = syscall (sys_write K f bs) (EvWrite f bs)"

definition c_waitpid :: "'w kernel \<Rightarrow> pid \<Rightarrow> 'w proc \<Rightarrow> status sysret \<times> 'w proc" where
  "c_waitpid K p = syscall (sys_waitpid K p) (EvWaitpid p)"

definition c_mkdir :: "'w kernel \<Rightarrow> string \<Rightarrow> nat \<Rightarrow> 'w proc \<Rightarrow> unit sysret \<times> 'w proc" where
  "c_mkdir K path mode = syscall (sys_mkdir K path mode) (EvMkdir path mode)"

text \<open>
  The macros of \<^verbatim>\<open><sys/wait.h>\<close> (glibc): \<^verbatim>\<open>WIFEXITED(s)\<close> is \<^verbatim>\<open>(s & 0x7f) == 0\<close> and
  \<^verbatim>\<open>WEXITSTATUS(s)\<close> is \<^verbatim>\<open>(s & 0xff00) >> 8\<close>. \<open>exit_status c\<close> is the status word
  of a child that ended with \<^verbatim>\<open>_exit(c)\<close>.
\<close>

definition WIFEXITED :: "status \<Rightarrow> bool" where
  "WIFEXITED s \<longleftrightarrow> s AND 0x7f = 0"

definition WEXITSTATUS :: "status \<Rightarrow> int" where
  "WEXITSTATUS s = uint (drop_bit 8 (s AND 0xff00))"

definition exit_status :: "nat \<Rightarrow> status" where
  "exit_status c = push_bit 8 (word_of_nat c AND 0xff)"

subsection \<open>\<^verbatim>\<open>secure_zero\<close>\<close>

text \<open>
  \<^verbatim>\<open>while (len--) *p++ = 0;\<close> with \<open>p\<close> an index into the buffer. A write past the end
  of the buffer is undefined in C and changes nothing here; the statements about the
  buffer take \<open>len\<close> within it.
\<close>

fun secure_zero_loop :: "byte list \<Rightarrow> nat \<Rightarrow> nat \<Rightarrow> byte list" where
  "secure_zero_loop mem p 0 = mem"
| "secure_zero_loop mem p (Suc len) = secure_zero_loop (mem[p := 0]) (Suc p) len"

definition secure_zero :: "byte list \<Rightarrow> size_t \<Rightarrow> byte list" where
  "secure_zero ptr len = secure_zero_loop ptr 0 (unat len)"

subsection \<open>The process runners\<close>

definition wait_result :: "status \<Rightarrow> int" where
  "wait_result st = (if WIFEXITED st then WEXITSTATUS st else -1)"

definition execute_command :: "'w kernel \<Rightarrow> string list \<Rightarrow> 'w proc \<Rightarrow> int \<times> 'w proc" where
  "execute_command K argv s =
     (case c_fork K (Exec argv) s of
        (Fail e, s1) \<Rightarrow> (-1, s1)
      | (Ok pid, s1) \<Rightarrow>
          (case c_waitpid K pid s1 of
             (Fail e, s2) \<Rightarrow> (-1, s2)
           | (Ok st, s2) \<Rightarrow> (wait_result st, s2)))"

text \<open>
  \<^verbatim>\<open>ssize_t written = write(...)\<close>: \<^verbatim>\<open>-1\<close> on failure, the count otherwise. The test
  \<^verbatim>\<open>written != (ssize_t)len\<close> compares the two 64-bit patterns. The bytes handed to
  \<^verbatim>\<open>write\<close> are the first \<open>len\<close> bytes of \<open>input\<close>; a \<open>len\<close> beyond the buffer is
  undefined in C and hands over the whole buffer here.
\<close>

definition written_of :: "size_t sysret \<Rightarrow> ssize_t" where
  "written_of r = (case r of Fail e \<Rightarrow> -1 | Ok n \<Rightarrow> n)"

definition execute_with_stdin ::
  "'w kernel \<Rightarrow> string list \<Rightarrow> byte list \<Rightarrow> size_t \<Rightarrow> 'w proc \<Rightarrow> int \<times> 'w proc" where
  "execute_with_stdin K argv input len s =
     (case c_pipe K s of
        (Fail e, s1) \<Rightarrow> (-1, s1)
      | (Ok (rd, wr), s1) \<Rightarrow>
          (case c_fork K (ExecStdin argv rd wr) s1 of
             (Fail e, s2) \<Rightarrow>
               (let s3 = snd (c_close K rd s2);
                    s4 = snd (c_close K wr s3)
                in (-1, s4))
           | (Ok pid, s2) \<Rightarrow>
               (let s3 = snd (c_close K rd s2);
                    (w, s4) = c_write K wr (take (unat len) input) s3;
                    written = written_of w;
                    s5 = snd (c_close K wr s4)
                in if written \<noteq> len then (-1, snd (c_waitpid K pid s5))
                   else (case c_waitpid K pid s5 of
                           (Fail e, s6) \<Rightarrow> (-1, s6)
                         | (Ok st, s6) \<Rightarrow> (wait_result st, s6)))))"

subsection \<open>The volume operations\<close>

definition format_argv :: "string \<Rightarrow> string list" where
  "format_argv device_path =
     [''cryptsetup'', ''luksFormat'', ''--type'', ''luks2'',
      ''--cipher'', ''aes-xts-plain64'', ''--key-size'', ''512'',
      ''--hash'', ''sha256'', ''--key-file'', ''-'', ''--batch-mode'',
      device_path]"

text \<open>
  A pointer argument is \<open>None\<close> when it is \<^verbatim>\<open>NULL\<close>. The key buffer is returned with
  the result and the process state.
\<close>

definition luks_create_volume ::
  "'w kernel \<Rightarrow> string option \<Rightarrow> byte list option \<Rightarrow> size_t \<Rightarrow> 'w proc
     \<Rightarrow> int \<times> byte list option \<times> 'w proc" where
  "luks_create_volume K device_path key key_len s =
     (if device_path = None \<or> key = None \<or> key_len = 0
      then (-1, key, s\<lparr>errno := EINVAL\<rparr>)
      else
        (let argv = format_argv (the device_path);
             (result, s1) = execute_with_stdin K argv (the key) key_len s;
             key' = secure_zero (the key) key_len
         in (if result = 0 then 0 else -1, Some key', s1)))"

definition open_argv :: "string \<Rightarrow> string \<Rightarrow> string list" where
  "open_argv device_path mapper_name =
     [''cryptsetup'', ''luksOpen'', ''--key-file'', ''-'', device_path, mapper_name]"

text \<open>
  \<^verbatim>\<open>snprintf\<close> into \<^verbatim>\<open>char mapper_path[256]\<close> keeps at most 255 characters. The
  mode \<^verbatim>\<open>0700\<close> of \<^verbatim>\<open>mkdir\<close> is 448.
\<close>

definition mapper_path :: "string \<Rightarrow> string" where
  "mapper_path mapper_name = take 255 (''/dev/mapper/'' @ mapper_name)"

definition mkfs_argv :: "string \<Rightarrow> string list" where
  "mkfs_argv mapper_name = [''mkfs.ext4'', ''-F'', ''-q'', mapper_path mapper_name]"

definition mount_argv :: "string \<Rightarrow> string \<Rightarrow> string list" where
  "mount_argv mapper_name mount_point =
     [''mount'', ''-t'', ''ext4'', mapper_path mapper_name, mount_point]"

definition close_argv :: "string \<Rightarrow> string list" where
  "close_argv mapper_name = [''cryptsetup'', ''luksClose'', mapper_name]"

definition luks_open_volume ::
  "'w kernel \<Rightarrow> string option \<Rightarrow> string option \<Rightarrow> string option \<Rightarrow> byte list option
     \<Rightarrow> size_t \<Rightarrow> 'w proc \<Rightarrow> int \<times> byte list option \<times> 'w proc" where
  "luks_open_volume K device_path mapper_name mount_point key key_len s =
     (if device_path = None \<or> mapper_name = None \<or> mount_point = None \<or> key = None
         \<or> key_len = 0
      then (-1, key, s\<lparr>errno := EINVAL\<rparr>)
      else
        (let (result, s1) =
               execute_with_stdin K (open_argv (the device_path) (the mapper_name))
                 (the key) key_len s;
             key' = secure_zero (the key) key_len
         in if result \<noteq> 0 then (-1, Some key', s1)
            else
              (let s2 = snd (execute_command K (mkfs_argv (the mapper_name)) s1);
                   s3 = snd (c_mkdir K (the mount_point) 448 s2);
                   (result, s4) =
                     execute_command K (mount_argv (the mapper_name) (the mount_point)) s3
               in if result \<noteq> 0
                  then (-1, Some key',
                        snd (execute_command K (close_argv (the mapper_name)) s4))
                  else (0, Some key', s4))))"

definition umount_argv :: "string \<Rightarrow> string list" where
  "umount_argv mount_point = [''umount'', ''-f'', mount_point]"

definition luks_close_volume ::
  "'w kernel \<Rightarrow> string option \<Rightarrow> string option \<Rightarrow> 'w proc \<Rightarrow> int \<times> 'w proc" where
  "luks_close_volume K mount_point mapper_name s =
     (if mount_point = None \<or> mapper_name = None
      then (-1, s\<lparr>errno := EINVAL\<rparr>)
      else
        (let s1 = snd (execute_command K (umount_argv (the mount_point)) s);
             (r, s2) = execute_command K (close_argv (the mapper_name)) s1
         in (if r = 0 then 0 else -1, s2)))"

definition status_argv :: "string \<Rightarrow> string list" where
  "status_argv mapper_name = [''cryptsetup'', ''status'', mapper_name]"

definition luks_is_open :: "'w kernel \<Rightarrow> string option \<Rightarrow> 'w proc \<Rightarrow> int \<times> 'w proc" where
  "luks_is_open K mapper_name s =
     (if mapper_name = None then (0, s)
      else
        (let (r, s1) = execute_command K (status_argv (the mapper_name)) s
         in (if r = 0 then 1 else 0, s1)))"

subsection \<open>Reading the trace\<close>

text \<open>The calls made between two states of the process.\<close>

definition events_since :: "'w proc \<Rightarrow> 'w proc \<Rightarrow> event list" where
  "events_since s s' = drop (length (trace s)) (trace s')"

text \<open>The argument vectors of the children that were given a pipe as standard input.\<close>

fun stdin_argvs :: "event list \<Rightarrow> string list list" where
  "stdin_argvs [] = []"
| "stdin_argvs (EvFork (ExecStdin argv rd wr) r # es) = argv # stdin_argvs es"
| "stdin_argvs (e # es) = stdin_argvs es"

text \<open>The argument vectors of all the children, in the order of the forks.\<close>

fun spawned_argvs :: "event list \<Rightarrow> string list list" where
  "spawned_argvs [] = []"
| "spawned_argvs (EvFork (Exec argv) r # es) = argv # spawned_argvs es"
| "spawned_argvs (EvFork (ExecStdin argv rd wr) r # es) = argv # spawned_argvs es"
| "spawned_argvs (e # es) = spawned_argvs es"

text \<open>The byte sequences handed to \<^verbatim>\<open>write\<close>.\<close>

fun payloads :: "event list \<Rightarrow> byte list list" where
  "payloads [] = []"
| "payloads (EvWrite f bs r # es) = bs # payloads es"
| "payloads (e # es) = payloads es"

text \<open>The paths handed to \<^verbatim>\<open>mkdir\<close>.\<close>

fun mkdirs :: "event list \<Rightarrow> string list" where
  "mkdirs [] = []"
| "mkdirs (EvMkdir path mode r # es) = path # mkdirs es"
| "mkdirs (e # es) = mkdirs es"

subsection \<open>A scripted kernel\<close>

text \<open>
  A kernel to run the model on: its world is the list of the status words that the
  coming \<^verbatim>\<open>waitpid\<close> calls deliver, one each (\<^verbatim>\<open>ECHILD\<close>, 10, when the list is
  used up); \<^verbatim>\<open>pipe\<close>, \<^verbatim>\<open>fork\<close> and \<^verbatim>\<open>close\<close> succeed; \<open>wr\<close> answers every
  \<^verbatim>\<open>write\<close> and \<open>mk\<close> every \<^verbatim>\<open>mkdir\<close>.
\<close>

definition scripted ::
  "(byte list \<Rightarrow> size_t sysret) \<Rightarrow> unit sysret \<Rightarrow> (status list) kernel" where
  "scripted wr mk =
     \<lparr>sys_pipe = (\<lambda>w. (Ok (3, 4), w)),
      sys_fork = (\<lambda>c w. (Ok 100, w)),
      sys_close = (\<lambda>f w. (Ok (), w)),
      sys_write = (\<lambda>f bs w. (wr bs, w)),
      sys_waitpid = (\<lambda>p w. (case w of [] \<Rightarrow> (Fail 10, []) | st # w' \<Rightarrow> (Ok st, w'))),
      sys_mkdir = (\<lambda>path mode w. (mk, w))\<rparr>"

definition full_write :: "byte list \<Rightarrow> size_t sysret" where
  "full_write bs = Ok (word_of_nat (length bs))"

definition boot :: "'w \<Rightarrow> 'w proc" where
  "boot w = \<lparr>world = w, trace = [], errno = 0\<rparr>"

section \<open>Properties of the runners\<close>

text \<open>The definitions that running the model on concrete input unfolds.\<close>

lemmas model_defs =
  luks_open_volume_def luks_create_volume_def luks_close_volume_def luks_is_open_def
  execute_with_stdin_def execute_command_def
  c_pipe_def c_fork_def c_close_def c_write_def c_waitpid_def c_mkdir_def syscall_def
  written_of_def wait_result_def WIFEXITED_def WEXITSTATUS_def exit_status_def
  format_argv_def open_argv_def mkfs_argv_def mount_argv_def close_argv_def umount_argv_def
  status_argv_def mapper_path_def secure_zero_def events_since_def
  scripted_def full_write_def boot_def EINVAL_def

subsection \<open>System calls and the trace\<close>

lemma syscall_effect:
  assumes "syscall f ev s = (r, s')"
  shows "f (world s) = (r, world s')" and "trace s' = trace s @ [ev r]"
  using assms by (auto simp: syscall_def split: prod.splits)

lemma execute_command_cases:
  assumes "execute_command K argv s = (r, s')"
  obtains (fork_failed) e where
      "sys_fork K (Exec argv) (world s) = (Fail e, world s')" "r = -1"
      "trace s' = trace s @ [EvFork (Exec argv) (Fail e)]"
  | (wait_failed) pid w e where
      "sys_fork K (Exec argv) (world s) = (Ok pid, w)"
      "sys_waitpid K pid w = (Fail e, world s')" "r = -1"
      "trace s' = trace s @ [EvFork (Exec argv) (Ok pid), EvWaitpid pid (Fail e)]"
  | (waited) pid w st where
      "sys_fork K (Exec argv) (world s) = (Ok pid, w)"
      "sys_waitpid K pid w = (Ok st, world s')" "r = wait_result st"
      "trace s' = trace s @ [EvFork (Exec argv) (Ok pid), EvWaitpid pid (Ok st)]"
  using assms
  by (auto simp: execute_command_def c_fork_def c_waitpid_def syscall_def
           split: prod.splits sysret.splits)

lemma execute_with_stdin_cases:
  assumes run: "execute_with_stdin K argv input len s = (r, s')"
  obtains (pipe_failed) e where
      "r = -1" "trace s' = trace s @ [EvPipe (Fail e)]"
      "fst (sys_pipe K (world s)) = Fail e"
  | (fork_failed) rd wr e c1 c2 where
      "r = -1" "fst (sys_pipe K (world s)) = Ok (rd, wr)"
      "trace s' = trace s @ [EvPipe (Ok (rd, wr)), EvFork (ExecStdin argv rd wr) (Fail e),
                             EvClose rd c1, EvClose wr c2]"
  | (short_write) rd wr pid c1 w c2 st where
      "r = -1" "written_of w \<noteq> len" "fst (sys_pipe K (world s)) = Ok (rd, wr)"
      "trace s' = trace s @ [EvPipe (Ok (rd, wr)), EvFork (ExecStdin argv rd wr) (Ok pid),
                             EvClose rd c1, EvWrite wr (take (unat len) input) w,
                             EvClose wr c2, EvWaitpid pid st]"
  | (wait_failed) rd wr pid c1 w c2 e where
      "r = -1" "written_of w = len" "fst (sys_pipe K (world s)) = Ok (rd, wr)"
      "trace s' = trace s @ [EvPipe (Ok (rd, wr)), EvFork (ExecStdin argv rd wr) (Ok pid),
                             EvClose rd c1, EvWrite wr (take (unat len) input) w,
                             EvClose wr c2, EvWaitpid pid (Fail e)]"
  | (waited) rd wr pid c1 w c2 st where
      "r = wait_result st" "written_of w = len" "fst (sys_pipe K (world s)) = Ok (rd, wr)"
      "trace s' = trace s @ [EvPipe (Ok (rd, wr)), EvFork (ExecStdin argv rd wr) (Ok pid),
                             EvClose rd c1, EvWrite wr (take (unat len) input) w,
                             EvClose wr c2, EvWaitpid pid (Ok st)]"
proof -
  obtain r1 s1 where p: "c_pipe K s = (r1, s1)" by fastforce
  have t1: "trace s1 = trace s @ [EvPipe r1]"
    using p by (simp add: c_pipe_def syscall_effect(2))
  have p1: "fst (sys_pipe K (world s)) = r1"
    using p syscall_effect(1) [of "sys_pipe K" EvPipe s r1 s1] by (simp add: c_pipe_def)
  show thesis
  proof (cases r1)
    case (Fail e)
    then show thesis
      using run p t1 p1 pipe_failed by (simp add: execute_with_stdin_def)
  next
    case (Ok ends)
    obtain rd wr where ends: "ends = (rd, wr)" by (cases ends)
    obtain r2 s2 where f: "c_fork K (ExecStdin argv rd wr) s1 = (r2, s2)" by fastforce
    have t2: "trace s2 = trace s @ [EvPipe (Ok (rd, wr)), EvFork (ExecStdin argv rd wr) r2]"
      using f t1 Ok ends by (simp add: c_fork_def syscall_effect(2))
    obtain c1 s3 where c1: "c_close K rd s2 = (c1, s3)" by fastforce
    have t3: "trace s3 = trace s2 @ [EvClose rd c1]"
      using c1 by (simp add: c_close_def syscall_effect(2))
    show thesis
    proof (cases r2)
      case (Fail e)
      obtain c2 s4 where c2: "c_close K wr s3 = (c2, s4)" by fastforce
      have t4: "trace s4 = trace s3 @ [EvClose wr c2]"
        using c2 by (simp add: c_close_def syscall_effect(2))
      have "r = -1" "s' = s4"
        using run p Ok ends f Fail c1 c2 by (simp_all add: execute_with_stdin_def)
      then show thesis
        using fork_failed [of rd wr e c1 c2] t2 t3 t4 Fail p1 Ok ends by simp
    next
      case pid: (Ok pid)
      obtain w s4 where w: "c_write K wr (take (unat len) input) s3 = (w, s4)" by fastforce
      have t4: "trace s4 = trace s3 @ [EvWrite wr (take (unat len) input) w]"
        using w by (simp add: c_write_def syscall_effect(2))
      obtain c2 s5 where c2: "c_close K wr s4 = (c2, s5)" by fastforce
      have t5: "trace s5 = trace s4 @ [EvClose wr c2]"
        using c2 by (simp add: c_close_def syscall_effect(2))
      obtain st s6 where wt: "c_waitpid K pid s5 = (st, s6)" by fastforce
      have t6: "trace s6 = trace s5 @ [EvWaitpid pid st]"
        using wt by (simp add: c_waitpid_def syscall_effect(2))
      have body: "(r, s') = (if written_of w \<noteq> len then (-1, s6)
                    else (case st of Fail e \<Rightarrow> (-1, s6) | Ok x \<Rightarrow> (wait_result x, s6)))"
        using run p Ok ends f pid c1 w c2 wt
        by (auto simp: execute_with_stdin_def split: sysret.splits if_splits)
      have tr: "trace s6 = trace s @ [EvPipe (Ok (rd, wr)), EvFork (ExecStdin argv rd wr) (Ok pid),
                             EvClose rd c1, EvWrite wr (take (unat len) input) w,
                             EvClose wr c2, EvWaitpid pid st]"
        using t2 t3 t4 t5 t6 pid by simp
      have p2: "fst (sys_pipe K (world s)) = Ok (rd, wr)"
        using p1 Ok ends by simp
      show thesis
      proof (cases "written_of w \<noteq> len")
        case True
        then show thesis using body tr p2 short_write [of w rd wr pid c1 c2 st] by simp
      next
        case False
        then show thesis
          using body tr p2 wait_failed [of w rd wr pid c1 c2] waited [of _ w rd wr pid c1 c2]
          by (cases st) simp_all
      qed
    qed
  qed
qed

subsection \<open>What the runners add to the trace\<close>

lemma spawned_argvs_append: "spawned_argvs (xs @ ys) = spawned_argvs xs @ spawned_argvs ys"
  by (induction xs rule: spawned_argvs.induct) simp_all

lemma stdin_argvs_append: "stdin_argvs (xs @ ys) = stdin_argvs xs @ stdin_argvs ys"
  by (induction xs rule: stdin_argvs.induct) simp_all

lemma payloads_append: "payloads (xs @ ys) = payloads xs @ payloads ys"
  by (induction xs rule: payloads.induct) simp_all

lemma mkdirs_append: "mkdirs (xs @ ys) = mkdirs xs @ mkdirs ys"
  by (induction xs rule: mkdirs.induct) simp_all

lemma events_since_append: "trace s' = trace s @ evs \<Longrightarrow> events_since s s' = evs"
  by (simp add: events_since_def)

lemma events_since_trans:
  "trace s1 = trace s @ xs \<Longrightarrow> trace s2 = trace s1 @ ys \<Longrightarrow> events_since s s2 = xs @ ys"
  by (simp add: events_since_def)

lemma execute_command_events:
  assumes "execute_command K argv s = (r, s')"
  obtains evs where "trace s' = trace s @ evs" "spawned_argvs evs = [argv]"
    "stdin_argvs evs = []" "payloads evs = []" "mkdirs evs = []"
  using assms by (cases rule: execute_command_cases) simp_all

text \<open>
  \<^verbatim>\<open>execute_command\<close> returns 0 exactly when the child was forked, was waited for, and
  exited with status 0.
\<close>

lemma execute_command_zero:
  "fst (execute_command K argv s) = 0 \<longleftrightarrow>
     (\<exists>pid w st w'. sys_fork K (Exec argv) (world s) = (Ok pid, w) \<and>
        sys_waitpid K pid w = (Ok st, w') \<and> WIFEXITED st \<and> WEXITSTATUS st = 0)"
  by (auto simp: execute_command_def c_fork_def c_waitpid_def syscall_def wait_result_def
           split: prod.splits sysret.splits)

lemma exit_127: "WIFEXITED (exit_status 127) \<and> WEXITSTATUS (exit_status 127) = 127"
  by (simp add: WIFEXITED_def WEXITSTATUS_def exit_status_def)

lemma execute_with_stdin_events:
  assumes "execute_with_stdin K argv input len s = (r, s')"
  obtains evs where "trace s' = trace s @ evs" "set (spawned_argvs evs) \<subseteq> {argv}"
    "stdin_argvs evs = spawned_argvs evs" "set (payloads evs) \<subseteq> {take (unat len) input}"
    "mkdirs evs = []" "r = 0 \<Longrightarrow> spawned_argvs evs = [argv]"
  using assms by (cases rule: execute_with_stdin_cases) simp_all

lemma c_mkdir_events:
  assumes "c_mkdir K path mode s = (r, s')"
  shows "trace s' = trace s @ [EvMkdir path mode r]"
    and "sys_mkdir K path mode (world s) = (r, world s')"
  using assms by (simp_all add: c_mkdir_def syscall_effect)

text \<open>The steps of \<open>luks_open_volume\<close> once the arguments have passed the check.\<close>

lemma luks_open_volume_unlock_failed:
  assumes "key_len \<noteq> 0"
    and "execute_with_stdin K (open_argv d m) k key_len s = (r, s1)" and "r \<noteq> 0"
  shows "luks_open_volume K (Some d) (Some m) (Some mp) (Some k) key_len s
           = (-1, Some (secure_zero k key_len), s1)"
  using assms by (simp add: luks_open_volume_def)

lemma luks_open_volume_unlocked:
  assumes "key_len \<noteq> 0"
    and "execute_with_stdin K (open_argv d m) k key_len s = (0, s1)"
    and "execute_command K (mkfs_argv m) s1 = (a, s2)"
    and "c_mkdir K mp 448 s2 = (b, s3)"
    and "execute_command K (mount_argv m mp) s3 = (r, s4)"
  shows "luks_open_volume K (Some d) (Some m) (Some mp) (Some k) key_len s
           = (if r \<noteq> 0
              then (-1, Some (secure_zero k key_len),
                    snd (execute_command K (close_argv m) s4))
              else (0, Some (secure_zero k key_len), s4))"
  using assms by (simp add: luks_open_volume_def)

lemma execute_command_first:
  assumes "execute_command K argv s = (r, s')"
  obtains a evs where "trace s' = trace s @ EvFork (Exec argv) a # evs"
  using assms by (cases rule: execute_command_cases) simp_all

text \<open>
  Two runs of a step from states with the same world give the same result, the same new
  world and the same new events.
\<close>

lemma execute_command_agree:
  assumes "world s = world t"
    and "execute_command K argv s = (r, s')" and "execute_command K argv t = (r', t')"
  obtains evs where "r' = r" "world t' = world s'"
    "trace s' = trace s @ evs" "trace t' = trace t @ evs"
    "spawned_argvs evs = [argv]" "mkdirs evs = []"
  using assms(2)
proof (cases rule: execute_command_cases)
  case (fork_failed e)
  from assms(3) show ?thesis
    by (cases rule: execute_command_cases) (use fork_failed assms(1) that in auto)
next
  case (wait_failed pid w e)
  from assms(3) show ?thesis
    by (cases rule: execute_command_cases) (use wait_failed assms(1) that in auto)
next
  case (waited pid w st)
  from assms(3) show ?thesis
    by (cases rule: execute_command_cases) (use waited assms(1) that in auto)
qed

lemma c_mkdir_agree:
  assumes "world s = world t"
    and "c_mkdir K path mode s = (r, s')" and "c_mkdir K path mode t = (r', t')"
  shows "r' = r" and "world t' = world s'"
  using assms c_mkdir_events(2) [of K path mode s r s'] c_mkdir_events(2) [of K path mode t r' t']
  by simp_all

lemma execute_with_stdin_first:
  assumes "execute_with_stdin K argv input len s = (r, s')"
  obtains a evs where "trace s' = trace s @ EvPipe a # evs"
  using assms by (cases rule: execute_with_stdin_cases) simp_all

lemma execute_with_stdin_argvs:
  assumes "execute_with_stdin K argv input len s = (r, s')"
  shows "stdin_argvs (events_since s s')
           = (case fst (sys_pipe K (world s)) of Fail e \<Rightarrow> [] | Ok p \<Rightarrow> [argv])"
  using assms by (cases rule: execute_with_stdin_cases) (simp_all add: events_since_def)

text \<open>What \<open>luks_open_volume\<close> does after the \<^verbatim>\<open>luksOpen\<close> runner has returned.\<close>

lemma luks_open_volume_tail:
  assumes "key_len \<noteq> 0"
    and "execute_with_stdin K (open_argv d m) k key_len s = (r, s1)"
  obtains evs where
    "trace (snd (snd (luks_open_volume K (Some d) (Some m) (Some mp) (Some k) key_len s)))
       = trace s1 @ evs"
    "stdin_argvs evs = []" "payloads evs = []"
proof (cases "r = 0")
  case False
  then have "luks_open_volume K (Some d) (Some m) (Some mp) (Some k) key_len s
               = (-1, Some (secure_zero k key_len), s1)"
    using assms by (simp add: luks_open_volume_unlock_failed)
  then show thesis using that [of "[]"] by simp
next
  case True
  obtain a s2 where mk: "execute_command K (mkfs_argv m) s1 = (a, s2)" by fastforce
  obtain b s3 where md: "c_mkdir K mp 448 s2 = (b, s3)" by fastforce
  obtain c s4 where mt: "execute_command K (mount_argv m mp) s3 = (c, s4)" by fastforce
  obtain q s5 where cl: "execute_command K (close_argv m) s4 = (q, s5)" by fastforce
  have res: "luks_open_volume K (Some d) (Some m) (Some mp) (Some k) key_len s
               = (if c \<noteq> 0 then (-1, Some (secure_zero k key_len), s5)
                  else (0, Some (secure_zero k key_len), s4))"
    using luks_open_volume_unlocked [OF assms(1) _ mk md mt] assms(2) True cl by simp
  obtain e2 where e2: "trace s2 = trace s1 @ e2" "stdin_argvs e2 = []" "payloads e2 = []"
    using mk by (rule execute_command_events)
  have e3: "trace s3 = trace s2 @ [EvMkdir mp 448 b]"
    using md by (rule c_mkdir_events)
  obtain e4 where e4: "trace s4 = trace s3 @ e4" "stdin_argvs e4 = []" "payloads e4 = []"
    using mt by (rule execute_command_events)
  obtain e5 where e5: "trace s5 = trace s4 @ e5" "stdin_argvs e5 = []" "payloads e5 = []"
    using cl by (rule execute_command_events)
  show thesis
  proof (cases "c = 0")
    case True
    then show thesis
      using that [of "e2 @ [EvMkdir mp 448 b] @ e4"] res e2 e3 e4
      by (simp add: stdin_argvs_append payloads_append)
  next
    case False
    then show thesis
      using that [of "e2 @ [EvMkdir mp 448 b] @ e4 @ e5"] res e2 e3 e4 e5
      by (simp add: stdin_argvs_append payloads_append)
  qed
qed

text \<open>A length below \<open>2 ^ 63\<close> reads the same as \<^verbatim>\<open>size_t\<close> and as \<^verbatim>\<open>ssize_t\<close>.\<close>

lemma sint_small:
  fixes w :: "64 word"
  assumes "uint w < 2 ^ 63"
  shows "sint w = uint w"
proof -
  have "- (2 ^ 63) \<le> uint w" by (rule order_trans [of _ 0]) simp_all
  then have "signed_take_bit 63 (uint w) = uint w"
    using assms by (simp add: signed_take_bit_int_eq_self)
  then show ?thesis by (simp add: sint_uint)
qed

text \<open>
  The children given a pipe by \<open>luks_create_volume\<close> and \<open>luks_open_volume\<close>, and the
  bytes written, once the arguments have passed the check.
\<close>

lemma create_stdin_argvs:
  assumes "key_len \<noteq> 0"
  shows "stdin_argvs (events_since s
            (snd (snd (luks_create_volume K (Some d) (Some k) key_len s))))
           = (case fst (sys_pipe K (world s)) of Fail e \<Rightarrow> [] | Ok p \<Rightarrow> [format_argv d])"
    and "set (payloads (events_since s
            (snd (snd (luks_create_volume K (Some d) (Some k) key_len s)))))
           \<subseteq> {take (unat key_len) k}"
proof -
  obtain r s1 where run: "execute_with_stdin K (format_argv d) k key_len s = (r, s1)"
    by fastforce
  have res: "snd (snd (luks_create_volume K (Some d) (Some k) key_len s)) = s1"
    using assms run by (simp add: luks_create_volume_def)
  show "stdin_argvs (events_since s
            (snd (snd (luks_create_volume K (Some d) (Some k) key_len s))))
           = (case fst (sys_pipe K (world s)) of Fail e \<Rightarrow> [] | Ok p \<Rightarrow> [format_argv d])"
    using res execute_with_stdin_argvs [OF run] by simp
  obtain evs where "trace s1 = trace s @ evs" "set (payloads evs) \<subseteq> {take (unat key_len) k}"
    using run by (rule execute_with_stdin_events)
  then show "set (payloads (events_since s
            (snd (snd (luks_create_volume K (Some d) (Some k) key_len s)))))
           \<subseteq> {take (unat key_len) k}"
    using res by (simp add: events_since_def)
qed

lemma open_stdin_argvs:
  assumes "key_len \<noteq> 0"
  shows "stdin_argvs (events_since s
            (snd (snd (luks_open_volume K (Some d) (Some m) (Some mp) (Some k) key_len s))))
           = (case fst (sys_pipe K (world s)) of Fail e \<Rightarrow> [] | Ok p \<Rightarrow> [open_argv d m])"
    and "set (payloads (events_since s
            (snd (snd (luks_open_volume K (Some d) (Some m) (Some mp) (Some k) key_len s)))))
           \<subseteq> {take (unat key_len) k}"
proof -
  obtain r s1 where run: "execute_with_stdin K (open_argv d m) k key_len s = (r, s1)"
    by fastforce
  obtain evs where evs: "trace s1 = trace s @ evs"
      "set (payloads evs) \<subseteq> {take (unat key_len) k}"
    using run by (rule execute_with_stdin_events)
  obtain tl where tl:
      "trace (snd (snd (luks_open_volume K (Some d) (Some m) (Some mp) (Some k) key_len s)))
         = trace s1 @ tl"
      "stdin_argvs tl = []" "payloads tl = []"
    using assms run by (rule luks_open_volume_tail)
  have since: "events_since s
            (snd (snd (luks_open_volume K (Some d) (Some m) (Some mp) (Some k) key_len s)))
          = events_since s s1 @ tl"
    using evs(1) tl(1) by (simp add: events_since_def)
  show "stdin_argvs (events_since s
            (snd (snd (luks_open_volume K (Some d) (Some m) (Some mp) (Some k) key_len s))))
           = (case fst (sys_pipe K (world s)) of Fail e \<Rightarrow> [] | Ok p \<Rightarrow> [open_argv d m])"
    using since tl(2) execute_with_stdin_argvs [OF run] by (simp add: stdin_argvs_append)
  show "set (payloads (events_since s
            (snd (snd (luks_open_volume K (Some d) (Some m) (Some mp) (Some k) key_len s)))))
           \<subseteq> {take (unat key_len) k}"
    using since tl(3) evs by (simp add: payloads_append events_since_def)
qed

subsection \<open>\<^verbatim>\<open>secure_zero\<close> clears the first \<open>len\<close> bytes\<close>

lemma secure_zero_loop_length: "length (secure_zero_loop mem p n) = length mem"
  by (induction mem p n rule: secure_zero_loop.induct) simp_all

lemma secure_zero_loop_nth:
  "i < length mem \<Longrightarrow>
   secure_zero_loop mem p n ! i = (if p \<le> i \<and> i < p + n then 0 else mem ! i)"
proof (induction mem p n rule: secure_zero_loop.induct)
  case (1 mem p)
  then show ?case by auto
next
  case (2 mem p len)
  then show ?case by (auto simp: nth_list_update)
qed

lemma secure_zero_take:
  assumes "unat len \<le> length buf"
  shows "take (unat len) (secure_zero buf len) = replicate (unat len) 0"
  using assms
  by (intro nth_equalityI)
     (simp_all add: secure_zero_def secure_zero_loop_length secure_zero_loop_nth)

text \<open>
  Past the argument check, \<open>luks_create_volume\<close> and \<open>luks_open_volume\<close> return the key
  buffer with its first \<open>key_len\<close> bytes cleared, whatever the runner returned.
\<close>

lemma key_cleared_after_check:
  assumes "key_len \<noteq> 0" and "unat key_len \<le> length k"
  shows "\<exists>z. fst (snd (luks_create_volume K (Some d) (Some k) key_len s)) = Some z
            \<and> take (unat key_len) z = replicate (unat key_len) 0"
    and "\<exists>z. fst (snd (luks_open_volume K (Some d) (Some m) (Some mp) (Some k) key_len s)) = Some z
            \<and> take (unat key_len) z = replicate (unat key_len) 0"
proof -
  have z: "take (unat key_len) (secure_zero k key_len) = replicate (unat key_len) 0"
    using assms(2) by (rule secure_zero_take)
  have "fst (snd (luks_create_volume K (Some d) (Some k) key_len s)) = Some (secure_zero k key_len)"
    using assms(1) by (simp add: luks_create_volume_def split: prod.splits)
  then show "\<exists>z. fst (snd (luks_create_volume K (Some d) (Some k) key_len s)) = Some z
            \<and> take (unat key_len) z = replicate (unat key_len) 0"
    using z by simp
  have "fst (snd (luks_open_volume K (Some d) (Some m) (Some mp) (Some k) key_len s))
          = Some (secure_zero k key_len)"
    using assms(1) by (simp add: luks_open_volume_def Let_def split: prod.splits)
  then show "\<exists>z. fst (snd (luks_open_volume K (Some d) (Some m) (Some mp) (Some k) key_len s)) = Some z
            \<and> take (unat key_len) z = replicate (unat key_len) 0"
    using z by simp
qed

section \<open>The claims\<close>

text \<open>
  C1. The claim: after every call of \<^verbatim>\<open>luks_create_volume\<close> or \<^verbatim>\<open>luks_open_volume\<close>, on
  every exit path, the caller's key buffer reads as zero bytes. The code clears the
  buffer only after the argument check has passed. Called with a \<^verbatim>\<open>NULL\<close> device path
  and the three-byte key \<^verbatim>\<open>sec\<close>, both functions return \<^verbatim>\<open>-1\<close> with \<^verbatim>\<open>errno\<close> set to
  \<^verbatim>\<open>EINVAL\<close>, make no system call, and leave the three key bytes in the buffer.
\<close>

theorem key_survives_invalid_argument:
  "luks_create_volume K None (Some [0x73, 0x65, 0x63]) 3 s
     = (-1, Some [0x73, 0x65, 0x63], s\<lparr>errno := EINVAL\<rparr>)
   \<and> luks_open_volume K None (Some ''m0'') (Some ''/mnt/m0'') (Some [0x73, 0x65, 0x63]) 3 s
     = (-1, Some [0x73, 0x65, 0x63], s\<lparr>errno := EINVAL\<rparr>)"
  by (simp add: luks_create_volume_def luks_open_volume_def)

text \<open>
  C10. \<^verbatim>\<open>luks_is_open\<close> returns 1 exactly when the mapper name is not \<^verbatim>\<open>NULL\<close> and the
  child running \<^verbatim>\<open>cryptsetup status <mapper>\<close> was forked, was waited for, and exited
  with status 0. In every other case (the fork or the wait fails, the child is ended by
  a signal, or it exits with another status, such as the 127 of a child whose
  \<^verbatim>\<open>execvp\<close> failed) it returns 0. With a \<^verbatim>\<open>NULL\<close> mapper name it returns 0 and makes no
  system call.
\<close>

theorem luks_is_open_exit_zero:
  "(fst (luks_is_open K mapper_name s) = 1 \<longleftrightarrow>
      (\<exists>m pid w st w'. mapper_name = Some m \<and>
         sys_fork K (Exec (status_argv m)) (world s) = (Ok pid, w) \<and>
         sys_waitpid K pid w = (Ok st, w') \<and> WIFEXITED st \<and> WEXITSTATUS st = 0))
   \<and> (fst (luks_is_open K mapper_name s) = 1 \<or> fst (luks_is_open K mapper_name s) = 0)
   \<and> luks_is_open K None s = (0, s)
   \<and> WIFEXITED (exit_status 127) \<and> WEXITSTATUS (exit_status 127) = 127"
proof -
  have "fst (luks_is_open K mapper_name s) = 1 \<longleftrightarrow>
      (\<exists>m. mapper_name = Some m \<and> fst (execute_command K (status_argv m) s) = 0)"
    by (cases mapper_name) (simp_all add: luks_is_open_def split: prod.splits)
  moreover have "fst (luks_is_open K mapper_name s) = 1 \<or> fst (luks_is_open K mapper_name s) = 0"
    by (simp add: luks_is_open_def split: prod.splits)
  moreover have "luks_is_open K None s = (0, s)"
    by (simp add: luks_is_open_def)
  ultimately show ?thesis
    using exit_127 by (simp add: execute_command_zero)
qed

text \<open>
  C6. \<^verbatim>\<open>luks_close_volume\<close> with both arguments present forks \<^verbatim>\<open>umount -f\<close> and then,
  whatever became of it, \<^verbatim>\<open>cryptsetup luksClose\<close>: these two, in this order, are the
  children it forks. It returns 0 exactly when the \<^verbatim>\<open>luksClose\<close> child was forked, was
  waited for, and exited with status 0, and \<^verbatim>\<open>-1\<close> otherwise, as on a mapper that is
  already closed.
\<close>

theorem luks_close_volume_lock_decides:
  "(fst (luks_close_volume K (Some mount_point) (Some mapper_name) s) = 0 \<longleftrightarrow>
      (\<exists>pid w st w'.
         sys_fork K (Exec (close_argv mapper_name))
           (world (snd (execute_command K (umount_argv mount_point) s))) = (Ok pid, w) \<and>
         sys_waitpid K pid w = (Ok st, w') \<and> WIFEXITED st \<and> WEXITSTATUS st = 0))
   \<and> (fst (luks_close_volume K (Some mount_point) (Some mapper_name) s) = 0
        \<or> fst (luks_close_volume K (Some mount_point) (Some mapper_name) s) = -1)
   \<and> spawned_argvs
        (events_since s (snd (luks_close_volume K (Some mount_point) (Some mapper_name) s)))
      = [umount_argv mount_point, close_argv mapper_name]"
proof -
  obtain u s1 where u: "execute_command K (umount_argv mount_point) s = (u, s1)" by fastforce
  obtain r s2 where l: "execute_command K (close_argv mapper_name) s1 = (r, s2)" by fastforce
  have c: "luks_close_volume K (Some mount_point) (Some mapper_name) s
             = (if r = 0 then 0 else -1, s2)"
    using u l by (simp add: luks_close_volume_def)
  obtain xs where xs: "trace s1 = trace s @ xs" "spawned_argvs xs = [umount_argv mount_point]"
    using u by (rule execute_command_events)
  obtain ys where ys: "trace s2 = trace s1 @ ys" "spawned_argvs ys = [close_argv mapper_name]"
    using l by (rule execute_command_events)
  have "fst (execute_command K (close_argv mapper_name) s1) = r" using l by simp
  then have "r = 0 \<longleftrightarrow> (\<exists>pid w st w'.
         sys_fork K (Exec (close_argv mapper_name)) (world s1) = (Ok pid, w) \<and>
         sys_waitpid K pid w = (Ok st, w') \<and> WIFEXITED st \<and> WEXITSTATUS st = 0)"
    using execute_command_zero [of K "close_argv mapper_name" s1] by simp
  then show ?thesis
    using c u events_since_trans [OF xs(1) ys(1)] xs(2) ys(2)
    by (simp add: spawned_argvs_append)
qed

text \<open>
  C3. When \<^verbatim>\<open>luks_open_volume\<close> has unlocked the device (the \<^verbatim>\<open>luksOpen\<close> runner
  returned 0) and the mount runner returns a value other than 0, it returns \<^verbatim>\<open>-1\<close>, and
  the one child forked after the mount is \<^verbatim>\<open>cryptsetup luksClose <mapper>\<close>: the
  children of the whole call are \<^verbatim>\<open>luksOpen\<close>, \<^verbatim>\<open>mkfs.ext4\<close>, \<^verbatim>\<open>mount\<close> and
  \<^verbatim>\<open>luksClose\<close>, in this order.
\<close>

theorem open_rolls_back_on_mount_failure:
  assumes "key_len \<noteq> 0"
    and "execute_with_stdin K (open_argv d m) k key_len s = (0, s1)"
    and "execute_command K (mount_argv m mp)
           (snd (c_mkdir K mp 448 (snd (execute_command K (mkfs_argv m) s1)))) = (r, s4)"
    and "r \<noteq> 0"
  shows "fst (luks_open_volume K (Some d) (Some m) (Some mp) (Some k) key_len s) = -1
    \<and> spawned_argvs
        (events_since s4 (snd (snd (luks_open_volume K (Some d) (Some m) (Some mp) (Some k) key_len s))))
      = [close_argv m]
    \<and> spawned_argvs
        (events_since s (snd (snd (luks_open_volume K (Some d) (Some m) (Some mp) (Some k) key_len s))))
      = [open_argv d m, mkfs_argv m, mount_argv m mp, close_argv m]"
proof -
  obtain a s2 where mk: "execute_command K (mkfs_argv m) s1 = (a, s2)" by fastforce
  obtain b s3 where md: "c_mkdir K mp 448 s2 = (b, s3)" by fastforce
  have mt: "execute_command K (mount_argv m mp) s3 = (r, s4)"
    using assms(3) mk md by simp
  obtain c s5 where cl: "execute_command K (close_argv m) s4 = (c, s5)" by fastforce
  have res: "luks_open_volume K (Some d) (Some m) (Some mp) (Some k) key_len s
               = (-1, Some (secure_zero k key_len), s5)"
    using luks_open_volume_unlocked [OF assms(1,2) mk md mt] assms(4) cl by simp
  obtain e1 where e1: "trace s1 = trace s @ e1" "spawned_argvs e1 = [open_argv d m]"
    using assms(2) by (rule execute_with_stdin_events) simp
  obtain e2 where e2: "trace s2 = trace s1 @ e2" "spawned_argvs e2 = [mkfs_argv m]"
    using mk by (rule execute_command_events)
  have e3: "trace s3 = trace s2 @ [EvMkdir mp 448 b]"
    using md by (rule c_mkdir_events)
  obtain e4 where e4: "trace s4 = trace s3 @ e4" "spawned_argvs e4 = [mount_argv m mp]"
    using mt by (rule execute_command_events)
  obtain e5 where e5: "trace s5 = trace s4 @ e5" "spawned_argvs e5 = [close_argv m]"
    using cl by (rule execute_command_events)
  have "events_since s4 s5 = e5"
    using e5(1) by (rule events_since_append)
  moreover have "events_since s s5 = e1 @ e2 @ [EvMkdir mp 448 b] @ e4 @ e5"
    using e1(1) e2(1) e3 e4(1) e5(1) by (simp add: events_since_def)
  ultimately show ?thesis
    using res e1(2) e2(2) e4(2) e5(2) by (simp add: spawned_argvs_append)
qed

theorem open_rolls_back_on_mount_failure_witness:
  "fst (luks_open_volume (scripted full_write (Ok ())) (Some ''/dev/sdb1'') (Some ''m0'')
          (Some ''/mnt/m0'') (Some [0x6b, 0x65, 0x79]) 3 (boot [0, 0, exit_status 32, 0])) = -1
   \<and> spawned_argvs (trace (snd (snd
        (luks_open_volume (scripted full_write (Ok ())) (Some ''/dev/sdb1'') (Some ''m0'')
          (Some ''/mnt/m0'') (Some [0x6b, 0x65, 0x79]) 3 (boot [0, 0, exit_status 32, 0])))))
     = [open_argv ''/dev/sdb1'' ''m0'', mkfs_argv ''m0'', mount_argv ''m0'' ''/mnt/m0'',
        close_argv ''m0'']"
proof -
  let ?K = "scripted full_write (Ok ())"
  let ?s = "boot [0, 0, exit_status 32, 0] :: status list proc"
  let ?u = "execute_with_stdin ?K (open_argv ''/dev/sdb1'' ''m0'') [0x6b, 0x65, 0x79] 3 ?s"
  let ?m = "execute_command ?K (mount_argv ''m0'' ''/mnt/m0'')
              (snd (c_mkdir ?K ''/mnt/m0'' 448 (snd (execute_command ?K (mkfs_argv ''m0'') (snd ?u)))))"
  have h1: "(3 :: size_t) \<noteq> 0" by simp
  have "fst ?u = 0" by (simp add: model_defs)
  then have h2: "?u = (0, snd ?u)" by (simp add: prod_eq_iff)
  have "fst ?m = 32" by (simp add: model_defs)
  then have h3: "?m = (32, snd ?m)" by (simp add: prod_eq_iff)
  have h4: "(32 :: int) \<noteq> 0" by simp
  have "events_since ?s = trace" by (rule ext) (simp add: events_since_def boot_def)
  then show ?thesis
    using open_rolls_back_on_mount_failure [OF h1 h2 h3 h4] by simp
qed

text \<open>
  C5. When the \<^verbatim>\<open>luksOpen\<close> runner returns a value other than 0,
  \<^verbatim>\<open>luks_open_volume\<close> returns \<^verbatim>\<open>-1\<close> in the state the runner left: it forks no
  \<^verbatim>\<open>mkfs.ext4\<close>, no \<^verbatim>\<open>mount\<close> and no \<^verbatim>\<open>luksClose\<close> child (the only child it may
  have forked is \<^verbatim>\<open>luksOpen\<close>) and calls no \<^verbatim>\<open>mkdir\<close>.
\<close>

theorem open_stops_when_unlock_fails:
  assumes "key_len \<noteq> 0"
    and "execute_with_stdin K (open_argv d m) k key_len s = (r, s1)"
    and "r \<noteq> 0"
  shows "luks_open_volume K (Some d) (Some m) (Some mp) (Some k) key_len s
           = (-1, Some (secure_zero k key_len), s1)
    \<and> set (spawned_argvs (events_since s
          (snd (snd (luks_open_volume K (Some d) (Some m) (Some mp) (Some k) key_len s)))))
        \<subseteq> {open_argv d m}
    \<and> mkfs_argv m \<notin> set (spawned_argvs (events_since s
          (snd (snd (luks_open_volume K (Some d) (Some m) (Some mp) (Some k) key_len s)))))
    \<and> mount_argv m mp \<notin> set (spawned_argvs (events_since s
          (snd (snd (luks_open_volume K (Some d) (Some m) (Some mp) (Some k) key_len s)))))
    \<and> close_argv m \<notin> set (spawned_argvs (events_since s
          (snd (snd (luks_open_volume K (Some d) (Some m) (Some mp) (Some k) key_len s)))))
    \<and> mkdirs (events_since s
          (snd (snd (luks_open_volume K (Some d) (Some m) (Some mp) (Some k) key_len s)))) = []"
proof -
  have res: "luks_open_volume K (Some d) (Some m) (Some mp) (Some k) key_len s
           = (-1, Some (secure_zero k key_len), s1)"
    using assms by (rule luks_open_volume_unlock_failed)
  obtain evs where evs: "trace s1 = trace s @ evs" "set (spawned_argvs evs) \<subseteq> {open_argv d m}"
      "mkdirs evs = []"
    using assms(2) by (rule execute_with_stdin_events)
  have since: "events_since s s1 = evs"
    using evs(1) by (rule events_since_append)
  have "mkfs_argv m \<noteq> open_argv d m" "mount_argv m mp \<noteq> open_argv d m"
       "close_argv m \<noteq> open_argv d m"
    by (simp_all add: mkfs_argv_def mount_argv_def close_argv_def open_argv_def)
  then have "mkfs_argv m \<notin> set (spawned_argvs evs)" "mount_argv m mp \<notin> set (spawned_argvs evs)"
       "close_argv m \<notin> set (spawned_argvs evs)"
    using evs(2) by blast+
  then show ?thesis
    using res since evs(2,3) by simp
qed

theorem open_stops_when_unlock_fails_witness:
  "fst (luks_open_volume (scripted full_write (Ok ())) (Some ''/dev/sdb1'') (Some ''m0'')
          (Some ''/mnt/m0'') (Some [0x6b, 0x65, 0x79]) 3 (boot [exit_status 2, 0, 0, 0])) = -1
   \<and> mount_argv ''m0'' ''/mnt/m0'' \<notin> set (spawned_argvs (trace (snd (snd
        (luks_open_volume (scripted full_write (Ok ())) (Some ''/dev/sdb1'') (Some ''m0'')
          (Some ''/mnt/m0'') (Some [0x6b, 0x65, 0x79]) 3 (boot [exit_status 2, 0, 0, 0]))))))
   \<and> mkdirs (trace (snd (snd
        (luks_open_volume (scripted full_write (Ok ())) (Some ''/dev/sdb1'') (Some ''m0'')
          (Some ''/mnt/m0'') (Some [0x6b, 0x65, 0x79]) 3 (boot [exit_status 2, 0, 0, 0]))))) = []"
proof -
  let ?K = "scripted full_write (Ok ())"
  let ?s = "boot [exit_status 2, 0, 0, 0] :: status list proc"
  let ?u = "execute_with_stdin ?K (open_argv ''/dev/sdb1'' ''m0'') [0x6b, 0x65, 0x79] 3 ?s"
  let ?o = "luks_open_volume ?K (Some ''/dev/sdb1'') (Some ''m0'') (Some ''/mnt/m0'')
              (Some [0x6b, 0x65, 0x79]) 3 ?s"
  have h1: "(3 :: size_t) \<noteq> 0" by simp
  have "fst ?u = 2" by (simp add: model_defs)
  then have h2: "?u = (2, snd ?u)" by (simp add: prod_eq_iff)
  have h3: "(2 :: int) \<noteq> 0" by simp
  note w = open_stops_when_unlock_fails [OF h1 h2 h3, of "''/mnt/m0''"]
  have es: "events_since ?s = trace" by (rule ext) (simp add: events_since_def boot_def)
  from w have "?o = (-1, Some (secure_zero [0x6b, 0x65, 0x79] 3), snd ?u)" by blast
  then have a: "fst ?o = -1" by simp
  from w have b: "mount_argv ''m0'' ''/mnt/m0'' \<notin> set (spawned_argvs (events_since ?s (snd (snd ?o))))"
    by blast
  from w have c: "mkdirs (events_since ?s (snd (snd ?o))) = []" by blast
  show ?thesis using a b c unfolding es by blast
qed

text \<open>
  C7. The claim: in \<^verbatim>\<open>luks_open_volume\<close> a \<^verbatim>\<open>mkdir\<close> that fails for another reason than
  an existing directory makes the call fail before the mount. The code never reads the
  result of \<^verbatim>\<open>mkdir\<close>. With \<^verbatim>\<open>mkdir\<close> failing with \<^verbatim>\<open>EACCES\<close> (13) and every child
  exiting with status 0, the mount child is forked right after the \<^verbatim>\<open>mkdir\<close> and the call
  returns 0.
\<close>

theorem mkdir_failure_not_fatal:
  "fst (luks_open_volume (scripted full_write (Fail 13)) (Some ''/dev/sdb1'') (Some ''m0'')
          (Some ''/mnt/m0'') (Some [0x6b, 0x65, 0x79]) 3 (boot [0, 0, 0])) = 0
   \<and> drop 8 (trace (snd (snd
        (luks_open_volume (scripted full_write (Fail 13)) (Some ''/dev/sdb1'') (Some ''m0'')
          (Some ''/mnt/m0'') (Some [0x6b, 0x65, 0x79]) 3 (boot [0, 0, 0])))))
     = [EvMkdir ''/mnt/m0'' 448 (Fail 13),
        EvFork (Exec [''mount'', ''-t'', ''ext4'', ''/dev/mapper/m0'', ''/mnt/m0'']) (Ok 100),
        EvWaitpid 100 (Ok 0)]"
  by (simp add: model_defs)

text \<open>
  C7, as the code has it. Once the device is unlocked, whatever \<^verbatim>\<open>mkdir\<close> answers
  (success, an existing directory, or any other error), the next call is the fork of the
  mount child, and \<^verbatim>\<open>luks_open_volume\<close> returns 0 when the mount runner returns 0 and
  \<^verbatim>\<open>-1\<close> otherwise.
\<close>

theorem open_ignores_mkdir_result:
  assumes "key_len \<noteq> 0"
    and "execute_with_stdin K (open_argv d m) k key_len s = (0, s1)"
    and "c_mkdir K mp 448 (snd (execute_command K (mkfs_argv m) s1)) = (b, s3)"
    and "execute_command K (mount_argv m mp) s3 = (r, s4)"
  shows "fst (luks_open_volume K (Some d) (Some m) (Some mp) (Some k) key_len s)
           = (if r = 0 then 0 else -1)
    \<and> (\<exists>a evs. events_since (snd (execute_command K (mkfs_argv m) s1))
                  (snd (snd (luks_open_volume K (Some d) (Some m) (Some mp) (Some k) key_len s)))
               = EvMkdir mp 448 b # EvFork (Exec (mount_argv m mp)) a # evs)"
proof -
  obtain a s2 where mk: "execute_command K (mkfs_argv m) s1 = (a, s2)" by fastforce
  have md: "c_mkdir K mp 448 s2 = (b, s3)"
    using assms(3) mk by simp
  obtain c s5 where cl: "execute_command K (close_argv m) s4 = (c, s5)" by fastforce
  have res: "luks_open_volume K (Some d) (Some m) (Some mp) (Some k) key_len s
               = (if r \<noteq> 0 then (-1, Some (secure_zero k key_len), s5)
                  else (0, Some (secure_zero k key_len), s4))"
    using luks_open_volume_unlocked [OF assms(1,2) mk md assms(4)] cl by simp
  have e3: "trace s3 = trace s2 @ [EvMkdir mp 448 b]"
    using md by (rule c_mkdir_events)
  obtain f e4 where e4: "trace s4 = trace s3 @ EvFork (Exec (mount_argv m mp)) f # e4"
    using assms(4) by (rule execute_command_first)
  obtain e5 where e5: "trace s5 = trace s4 @ e5"
    using cl by (rule execute_command_events)
  have "events_since s2 s4 = EvMkdir mp 448 b # EvFork (Exec (mount_argv m mp)) f # e4"
    using e3 e4 by (simp add: events_since_def)
  moreover have "events_since s2 s5 = EvMkdir mp 448 b # EvFork (Exec (mount_argv m mp)) f # e4 @ e5"
    using e3 e4 e5 by (simp add: events_since_def)
  ultimately show ?thesis
    using res mk by (cases "r = 0") simp_all
qed

theorem open_ignores_mkdir_result_witness:
  "fst (luks_open_volume (scripted full_write (Fail 30)) (Some ''/dev/sdb1'') (Some ''m0'')
          (Some ''/mnt/m0'') (Some [0x6b, 0x65, 0x79]) 3 (boot [0, 0, 0])) = 0
   \<and> (\<exists>a evs. drop 8 (trace (snd (snd
        (luks_open_volume (scripted full_write (Fail 30)) (Some ''/dev/sdb1'') (Some ''m0'')
          (Some ''/mnt/m0'') (Some [0x6b, 0x65, 0x79]) 3 (boot [0, 0, 0])))))
        = EvMkdir ''/mnt/m0'' 448 (Fail 30)
          # EvFork (Exec (mount_argv ''m0'' ''/mnt/m0'')) a # evs)"
proof -
  let ?K = "scripted full_write (Fail 30)"
  let ?s = "boot [0, 0, 0] :: status list proc"
  let ?u = "execute_with_stdin ?K (open_argv ''/dev/sdb1'' ''m0'') [0x6b, 0x65, 0x79] 3 ?s"
  let ?s2 = "snd (execute_command ?K (mkfs_argv ''m0'') (snd ?u))"
  let ?d = "c_mkdir ?K ''/mnt/m0'' 448 ?s2"
  let ?m = "execute_command ?K (mount_argv ''m0'' ''/mnt/m0'') (snd ?d)"
  have h1: "(3 :: size_t) \<noteq> 0" by simp
  have "fst ?u = 0" by (simp add: model_defs)
  then have h2: "?u = (0, snd ?u)" by (simp add: prod_eq_iff)
  have "fst ?d = Fail 30" by (simp add: model_defs)
  then have h3: "?d = (Fail 30, snd ?d)" by (simp add: prod_eq_iff)
  have "fst ?m = 0" by (simp add: model_defs)
  then have h4: "?m = (0, snd ?m)" by (simp add: prod_eq_iff)
  have "length (trace ?s2) = 8" by (simp add: model_defs)
  then have "events_since ?s2 = (\<lambda>s'. drop 8 (trace s'))"
    by (intro ext) (simp add: events_since_def)
  then show ?thesis
    using open_ignores_mkdir_result [OF h1 h2 h3 h4] by simp
qed

text \<open>
  C9. The value the \<^verbatim>\<open>mkfs.ext4\<close> runner returns has no part in
  \<^verbatim>\<open>luks_open_volume\<close>. Take two runs in which the device is unlocked and the
  \<^verbatim>\<open>mkfs.ext4\<close> runner returns any values \<open>a\<close> and \<open>b\<close>, leaving the same world. Both
  runs then make the same calls with the same answers (the \<^verbatim>\<open>mkdir\<close> of the mount point,
  then the fork of the mount child) and return the same value.
\<close>

theorem open_ignores_mkfs_result:
  assumes "key_len \<noteq> 0"
    and "execute_with_stdin K (open_argv d m) k key_len s = (0, s1)"
    and "execute_with_stdin K (open_argv d m) k key_len t = (0, t1)"
    and "execute_command K (mkfs_argv m) s1 = (a, s2)"
    and "execute_command K (mkfs_argv m) t1 = (b, t2)"
    and "world s2 = world t2"
  shows "fst (luks_open_volume K (Some d) (Some m) (Some mp) (Some k) key_len s)
           = fst (luks_open_volume K (Some d) (Some m) (Some mp) (Some k) key_len t)
    \<and> events_since s2 (snd (snd (luks_open_volume K (Some d) (Some m) (Some mp) (Some k) key_len s)))
        = events_since t2 (snd (snd (luks_open_volume K (Some d) (Some m) (Some mp) (Some k) key_len t)))
    \<and> mkdirs (events_since s2
          (snd (snd (luks_open_volume K (Some d) (Some m) (Some mp) (Some k) key_len s)))) = [mp]
    \<and> take 1 (spawned_argvs (events_since s2
          (snd (snd (luks_open_volume K (Some d) (Some m) (Some mp) (Some k) key_len s)))))
        = [mount_argv m mp]"
proof -
  obtain c s3 where sd: "c_mkdir K mp 448 s2 = (c, s3)" by fastforce
  obtain c' t3 where td: "c_mkdir K mp 448 t2 = (c', t3)" by fastforce
  have c: "c' = c" and w3: "world s3 = world t3"
    using c_mkdir_agree [OF assms(6) sd td] by simp_all
  have s3: "trace s3 = trace s2 @ [EvMkdir mp 448 c]" using sd by (rule c_mkdir_events)
  have t3: "trace t3 = trace t2 @ [EvMkdir mp 448 c]" using td c by (simp add: c_mkdir_events)
  obtain r s4 where sm: "execute_command K (mount_argv m mp) s3 = (r, s4)" by fastforce
  obtain r' t4 where tm: "execute_command K (mount_argv m mp) t3 = (r', t4)" by fastforce
  obtain e4 where r: "r' = r" and w4: "world t4 = world s4"
      and s4: "trace s4 = trace s3 @ e4" and t4: "trace t4 = trace t3 @ e4"
      and e4: "spawned_argvs e4 = [mount_argv m mp]" "mkdirs e4 = []"
    using w3 sm tm by (rule execute_command_agree)
  obtain q s5 where sc: "execute_command K (close_argv m) s4 = (q, s5)" by fastforce
  obtain q' t5 where tc: "execute_command K (close_argv m) t4 = (q', t5)" by fastforce
  obtain e5 where s5: "trace s5 = trace s4 @ e5" and t5: "trace t5 = trace t4 @ e5"
      and e5: "mkdirs e5 = []"
    using w4 [symmetric] sc tc by (rule execute_command_agree)
  have so: "luks_open_volume K (Some d) (Some m) (Some mp) (Some k) key_len s
              = (if r \<noteq> 0 then (-1, Some (secure_zero k key_len), s5)
                 else (0, Some (secure_zero k key_len), s4))"
    using luks_open_volume_unlocked [OF assms(1,2,4) sd sm] sc by simp
  have to: "luks_open_volume K (Some d) (Some m) (Some mp) (Some k) key_len t
              = (if r \<noteq> 0 then (-1, Some (secure_zero k key_len), t5)
                 else (0, Some (secure_zero k key_len), t4))"
    using luks_open_volume_unlocked [OF assms(1,3,5) td tm] tc r by simp
  have "events_since s2 s4 = EvMkdir mp 448 c # e4" "events_since t2 t4 = EvMkdir mp 448 c # e4"
       "events_since s2 s5 = EvMkdir mp 448 c # e4 @ e5"
       "events_since t2 t5 = EvMkdir mp 448 c # e4 @ e5"
    using s3 t3 s4 t4 s5 t5 by (simp_all add: events_since_def)
  then show ?thesis
    using so to e4 e5 by (cases "r = 0") (simp_all add: spawned_argvs_append mkdirs_append)
qed

theorem open_ignores_mkfs_result_witness:
  "fst (execute_command (scripted full_write (Ok ())) (mkfs_argv ''m0'')
         (snd (execute_with_stdin (scripted full_write (Ok ())) (open_argv ''/dev/sdb1'' ''m0'')
                [0x6b, 0x65, 0x79] 3 (boot [0, 0, 0])))) = 0
   \<and> fst (execute_command (scripted full_write (Ok ())) (mkfs_argv ''m0'')
         (snd (execute_with_stdin (scripted full_write (Ok ())) (open_argv ''/dev/sdb1'' ''m0'')
                [0x6b, 0x65, 0x79] 3 (boot [0, exit_status 1, 0])))) = 1
   \<and> fst (luks_open_volume (scripted full_write (Ok ())) (Some ''/dev/sdb1'') (Some ''m0'')
          (Some ''/mnt/m0'') (Some [0x6b, 0x65, 0x79]) 3 (boot [0, 0, 0]))
     = fst (luks_open_volume (scripted full_write (Ok ())) (Some ''/dev/sdb1'') (Some ''m0'')
          (Some ''/mnt/m0'') (Some [0x6b, 0x65, 0x79]) 3 (boot [0, exit_status 1, 0]))"
proof -
  let ?K = "scripted full_write (Ok ())"
  let ?s = "boot [0, 0, 0] :: status list proc"
  let ?t = "boot [0, exit_status 1, 0] :: status list proc"
  let ?us = "execute_with_stdin ?K (open_argv ''/dev/sdb1'' ''m0'') [0x6b, 0x65, 0x79] 3 ?s"
  let ?ut = "execute_with_stdin ?K (open_argv ''/dev/sdb1'' ''m0'') [0x6b, 0x65, 0x79] 3 ?t"
  let ?ms = "execute_command ?K (mkfs_argv ''m0'') (snd ?us)"
  let ?mt = "execute_command ?K (mkfs_argv ''m0'') (snd ?ut)"
  have h1: "(3 :: size_t) \<noteq> 0" by simp
  have "fst ?us = 0" by (simp add: model_defs)
  then have h2: "?us = (0, snd ?us)" by (simp add: prod_eq_iff)
  have "fst ?ut = 0" by (simp add: model_defs)
  then have h3: "?ut = (0, snd ?ut)" by (simp add: prod_eq_iff)
  have ms: "fst ?ms = 0" by (simp add: model_defs)
  then have h4: "?ms = (0, snd ?ms)" by (simp add: prod_eq_iff)
  have mt: "fst ?mt = 1" by (simp add: model_defs)
  then have h5: "?mt = (1, snd ?mt)" by (simp add: prod_eq_iff)
  have h6: "world (snd ?ms) = world (snd ?mt)" by (simp add: model_defs)
  note w = open_ignores_mkfs_result [OF h1 h2 h3 h4 h5 h6, of "''/mnt/m0''"]
  from w have "fst (luks_open_volume ?K (Some ''/dev/sdb1'') (Some ''m0'') (Some ''/mnt/m0'')
                      (Some [0x6b, 0x65, 0x79]) 3 ?s)
             = fst (luks_open_volume ?K (Some ''/dev/sdb1'') (Some ''m0'') (Some ''/mnt/m0'')
                      (Some [0x6b, 0x65, 0x79]) 3 ?t)"
    by blast
  then show ?thesis using ms mt by blast
qed

text \<open>
  C8. The claim: \<^verbatim>\<open>luks_create_volume\<close> and \<^verbatim>\<open>luks_open_volume\<close> reject a parameter
  that is missing or empty before any command is spawned. The code tests the pointers
  against \<^verbatim>\<open>NULL\<close> and the key length against 0, and does not look at the strings. With
  an empty device path (and, for open, an empty mapper name and mount point) and a
  one-byte key, both functions fork their children with the empty strings in the
  argument vectors; with every child exiting 0 they return 0, and \<^verbatim>\<open>errno\<close> is not set.
\<close>

theorem empty_strings_accepted:
  "fst (luks_create_volume (scripted full_write (Ok ())) (Some '''') (Some [0x6b]) 1 (boot [0])) = 0
   \<and> spawned_argvs (trace (snd (snd
        (luks_create_volume (scripted full_write (Ok ())) (Some '''') (Some [0x6b]) 1 (boot [0])))))
     = [ [''cryptsetup'', ''luksFormat'', ''--type'', ''luks2'', ''--cipher'',
         ''aes-xts-plain64'', ''--key-size'', ''512'', ''--hash'', ''sha256'', ''--key-file'',
         ''-'', ''--batch-mode'', ''''] ]
   \<and> errno (snd (snd
        (luks_create_volume (scripted full_write (Ok ())) (Some '''') (Some [0x6b]) 1 (boot [0]))))
     = 0
   \<and> fst (luks_open_volume (scripted full_write (Ok ())) (Some '''') (Some '''') (Some '''')
          (Some [0x6b]) 1 (boot [0, 0, 0])) = 0
   \<and> spawned_argvs (trace (snd (snd
        (luks_open_volume (scripted full_write (Ok ())) (Some '''') (Some '''') (Some '''')
          (Some [0x6b]) 1 (boot [0, 0, 0])))))
     = [ [''cryptsetup'', ''luksOpen'', ''--key-file'', ''-'', '''', ''''],
        [''mkfs.ext4'', ''-F'', ''-q'', ''/dev/mapper/''],
        [''mount'', ''-t'', ''ext4'', ''/dev/mapper/'', ''''] ]"
  by (simp add: model_defs)

text \<open>
  C8, as the code has it. When a pointer argument is \<^verbatim>\<open>NULL\<close> or the key length is 0,
  both functions return \<^verbatim>\<open>-1\<close> with \<^verbatim>\<open>errno\<close> set to \<^verbatim>\<open>EINVAL\<close>, the key buffer and
  the rest of the state as they were: no system call is made, no command spawned. When
  every pointer is present and the key length is not 0, whatever the strings hold, the
  first call is the \<^verbatim>\<open>pipe\<close> of the runner.
\<close>

theorem null_arguments_rejected:
  "(device_path = None \<or> key = None \<or> key_len = 0 \<longrightarrow>
      luks_create_volume K device_path key key_len s = (-1, key, s\<lparr>errno := EINVAL\<rparr>))
   \<and> (device_path = None \<or> mapper_name = None \<or> mount_point = None \<or> key = None
        \<or> key_len = 0 \<longrightarrow>
      luks_open_volume K device_path mapper_name mount_point key key_len s
        = (-1, key, s\<lparr>errno := EINVAL\<rparr>))
   \<and> (key_len \<noteq> 0 \<longrightarrow>
      (\<exists>a evs. trace (snd (snd (luks_create_volume K (Some d) (Some k) key_len s)))
                 = trace s @ EvPipe a # evs)
      \<and> (\<exists>a evs. trace (snd (snd
                   (luks_open_volume K (Some d) (Some m) (Some mp) (Some k) key_len s)))
                 = trace s @ EvPipe a # evs))"
proof (intro conjI impI)
  assume "device_path = None \<or> key = None \<or> key_len = 0"
  then show "luks_create_volume K device_path key key_len s = (-1, key, s\<lparr>errno := EINVAL\<rparr>)"
    by (simp add: luks_create_volume_def)
next
  assume "device_path = None \<or> mapper_name = None \<or> mount_point = None \<or> key = None
            \<or> key_len = 0"
  then show "luks_open_volume K device_path mapper_name mount_point key key_len s
               = (-1, key, s\<lparr>errno := EINVAL\<rparr>)"
    by (simp add: luks_open_volume_def)
next
  assume len: "key_len \<noteq> 0"
  obtain r s1 where run: "execute_with_stdin K (format_argv d) k key_len s = (r, s1)"
    by fastforce
  obtain a evs where "trace s1 = trace s @ EvPipe a # evs"
    using run by (rule execute_with_stdin_first)
  then show "\<exists>a evs. trace (snd (snd (luks_create_volume K (Some d) (Some k) key_len s)))
                 = trace s @ EvPipe a # evs"
    using len run by (simp add: luks_create_volume_def)
next
  assume len: "key_len \<noteq> 0"
  obtain r s1 where run: "execute_with_stdin K (open_argv d m) k key_len s = (r, s1)"
    by fastforce
  obtain a evs where first: "trace s1 = trace s @ EvPipe a # evs"
    using run by (rule execute_with_stdin_first)
  obtain tl where "trace (snd (snd (luks_open_volume K (Some d) (Some m) (Some mp) (Some k) key_len s)))
       = trace s1 @ tl"
    using len run by (rule luks_open_volume_tail)
  then show "\<exists>a evs. trace (snd (snd
                   (luks_open_volume K (Some d) (Some m) (Some mp) (Some k) key_len s)))
                 = trace s @ EvPipe a # evs"
    using first by simp
qed

theorem null_arguments_rejected_witness:
  "luks_create_volume (scripted full_write (Ok ())) None (Some [0x6b]) 1 (boot [0])
     = (-1, Some [0x6b], (boot [0])\<lparr>errno := EINVAL\<rparr>)
   \<and> luks_open_volume (scripted full_write (Ok ())) (Some ''/dev/sdb1'') (Some ''m0'') None
        (Some [0x6b]) 1 (boot [0])
     = (-1, Some [0x6b], (boot [0])\<lparr>errno := EINVAL\<rparr>)
   \<and> (\<exists>a evs. trace (snd (snd (luks_create_volume (scripted full_write (Ok ()))
                  (Some '''') (Some [0x6b]) 1 (boot [0]))))
                = EvPipe a # evs)"
proof -
  let ?K = "scripted full_write (Ok ())"
  let ?s = "boot [0] :: status list proc"
  note w = null_arguments_rejected [of None "Some [0x6b]" 1 ?K ?s "Some ''m0''" None "''''" "[0x6b]"]
  have t: "trace ?s = []" by (simp add: boot_def)
  from w have a: "luks_create_volume ?K None (Some [0x6b]) 1 ?s
                    = (-1, Some [0x6b], ?s\<lparr>errno := EINVAL\<rparr>)"
    by simp
  from null_arguments_rejected [of "Some ''/dev/sdb1''" "Some [0x6b]" 1 ?K ?s "Some ''m0''" None]
  have b: "luks_open_volume ?K (Some ''/dev/sdb1'') (Some ''m0'') None (Some [0x6b]) 1 ?s
             = (-1, Some [0x6b], ?s\<lparr>errno := EINVAL\<rparr>)"
    by simp
  from w t have c: "\<exists>a evs. trace (snd (snd (luks_create_volume ?K (Some '''') (Some [0x6b]) 1 ?s)))
                = EvPipe a # evs"
    by simp
  show ?thesis using a b c by blast
qed

text \<open>
  C2. For two keys of any content and any non-zero lengths, from the same state and with
  the same other arguments, \<^verbatim>\<open>luks_create_volume\<close> gives the children it feeds through
  a pipe the same argument vectors, and so does \<^verbatim>\<open>luks_open_volume\<close>. Such a vector is
  the fixed \<^verbatim>\<open>luksFormat\<close> line, or the fixed \<^verbatim>\<open>luksOpen\<close> line, with \<^verbatim>\<open>--key-file -\<close>
  and the device path (and mapper name) the caller gave; the key is not among its
  entries. The bytes handed to \<^verbatim>\<open>write\<close> are the first \<open>key_len\<close> bytes of the key.
\<close>

theorem key_only_on_stdin:
  assumes "l1 \<noteq> 0" and "l2 \<noteq> 0"
  shows "stdin_argvs (events_since s (snd (snd (luks_create_volume K (Some d) (Some k1) l1 s))))
           = stdin_argvs (events_since s (snd (snd (luks_create_volume K (Some d) (Some k2) l2 s))))
    \<and> stdin_argvs (events_since s
          (snd (snd (luks_open_volume K (Some d) (Some m) (Some mp) (Some k1) l1 s))))
        = stdin_argvs (events_since s
          (snd (snd (luks_open_volume K (Some d) (Some m) (Some mp) (Some k2) l2 s))))
    \<and> set (stdin_argvs (events_since s
             (snd (snd (luks_create_volume K (Some d) (Some k1) l1 s)))))
        \<subseteq> {[''cryptsetup'', ''luksFormat'', ''--type'', ''luks2'', ''--cipher'',
             ''aes-xts-plain64'', ''--key-size'', ''512'', ''--hash'', ''sha256'',
             ''--key-file'', ''-'', ''--batch-mode'', d]}
    \<and> set (stdin_argvs (events_since s
             (snd (snd (luks_open_volume K (Some d) (Some m) (Some mp) (Some k1) l1 s)))))
        \<subseteq> {[''cryptsetup'', ''luksOpen'', ''--key-file'', ''-'', d, m]}
    \<and> set (payloads (events_since s
             (snd (snd (luks_create_volume K (Some d) (Some k1) l1 s)))))
        \<subseteq> {take (unat l1) k1}
    \<and> set (payloads (events_since s
             (snd (snd (luks_open_volume K (Some d) (Some m) (Some mp) (Some k1) l1 s)))))
        \<subseteq> {take (unat l1) k1}"
proof -
  have "set (case fst (sys_pipe K (world s)) of Fail e \<Rightarrow> [] | Ok p \<Rightarrow> [format_argv d])
          \<subseteq> {format_argv d}"
       "set (case fst (sys_pipe K (world s)) of Fail e \<Rightarrow> [] | Ok p \<Rightarrow> [open_argv d m])
          \<subseteq> {open_argv d m}"
    by (auto split: sysret.splits)
  then show ?thesis
    using create_stdin_argvs [OF assms(1), of s K d k1] create_stdin_argvs(1) [OF assms(2), of s K d k2]
      open_stdin_argvs [OF assms(1), of s K d m mp k1] open_stdin_argvs(1) [OF assms(2), of s K d m mp k2]
    by (simp add: format_argv_def open_argv_def)
qed

theorem key_only_on_stdin_witness:
  "stdin_argvs (trace (snd (snd (luks_open_volume (scripted full_write (Ok ()))
      (Some ''/dev/sdb1'') (Some ''m0'') (Some ''/mnt/m0'') (Some [0x6b, 0x65, 0x79]) 3
      (boot [0, 0, 0])))))
   = stdin_argvs (trace (snd (snd (luks_open_volume (scripted full_write (Ok ()))
      (Some ''/dev/sdb1'') (Some ''m0'') (Some ''/mnt/m0'') (Some [0x62, 0x61, 0x64, 0x21]) 4
      (boot [0, 0, 0])))))
   \<and> stdin_argvs (trace (snd (snd (luks_open_volume (scripted full_write (Ok ()))
      (Some ''/dev/sdb1'') (Some ''m0'') (Some ''/mnt/m0'') (Some [0x6b, 0x65, 0x79]) 3
      (boot [0, 0, 0])))))
     = [ [''cryptsetup'', ''luksOpen'', ''--key-file'', ''-'', ''/dev/sdb1'', ''m0''] ]
   \<and> payloads (trace (snd (snd (luks_open_volume (scripted full_write (Ok ()))
      (Some ''/dev/sdb1'') (Some ''m0'') (Some ''/mnt/m0'') (Some [0x6b, 0x65, 0x79]) 3
      (boot [0, 0, 0])))))
     = [ [0x6b, 0x65, 0x79] ]"
proof -
  let ?K = "scripted full_write (Ok ())"
  let ?s = "boot [0, 0, 0] :: status list proc"
  let ?o1 = "luks_open_volume ?K (Some ''/dev/sdb1'') (Some ''m0'') (Some ''/mnt/m0'')
               (Some [0x6b, 0x65, 0x79]) 3 ?s"
  let ?o2 = "luks_open_volume ?K (Some ''/dev/sdb1'') (Some ''m0'') (Some ''/mnt/m0'')
               (Some [0x62, 0x61, 0x64, 0x21]) 4 ?s"
  have h1: "(3 :: size_t) \<noteq> 0" and h2: "(4 :: size_t) \<noteq> 0" by simp_all
  have es: "events_since ?s = trace" by (rule ext) (simp add: events_since_def boot_def)
  note w = key_only_on_stdin [OF h1 h2, of ?s ?K "''/dev/sdb1''" "[0x6b, 0x65, 0x79]"
      "[0x62, 0x61, 0x64, 0x21]" "''m0''" "''/mnt/m0''"]
  from w have a: "stdin_argvs (events_since ?s (snd (snd ?o1)))
                    = stdin_argvs (events_since ?s (snd (snd ?o2)))"
    by blast
  have b: "stdin_argvs (trace (snd (snd ?o1)))
             = [ [''cryptsetup'', ''luksOpen'', ''--key-file'', ''-'', ''/dev/sdb1'', ''m0''] ]"
    by (simp add: model_defs)
  have c: "payloads (trace (snd (snd ?o1))) = [ [0x6b, 0x65, 0x79] ]"
    by (simp add: model_defs)
  show ?thesis using a b c unfolding es by blast
qed

text \<open>
  C4. When the \<^verbatim>\<open>write\<close> of \<^verbatim>\<open>execute_with_stdin\<close> returns less than the payload
  length (\<^verbatim>\<open>-1\<close> or a smaller count), the runner returns \<^verbatim>\<open>-1\<close>, whatever status the
  child ends with, and its last call is the \<^verbatim>\<open>waitpid\<close> for the child it forked. The
  length is below \<open>2 ^ 63\<close>, as the size of any C object is: the cast
  \<^verbatim>\<open>(ssize_t)len\<close> then keeps its value.
\<close>

theorem short_write_is_failure:
  assumes "execute_with_stdin K argv input len s = (r, s')"
    and "EvWrite f bs w \<in> set (events_since s s')"
    and "sint (written_of w) < uint len"
    and "uint len < 2 ^ 63"
  shows "r = -1
    \<and> (\<exists>rd wr pid st. EvFork (ExecStdin argv rd wr) (Ok pid) \<in> set (events_since s s')
          \<and> last (trace s') = EvWaitpid pid st)"
proof -
  have ne: "written_of w \<noteq> len"
    using assms(3,4) sint_small [of len] by auto
  from assms(1) show ?thesis
  proof (cases rule: execute_with_stdin_cases)
    case (pipe_failed e)
    then show ?thesis using assms(2) by (simp add: events_since_def)
  next
    case (fork_failed rd wr e c1 c2)
    then show ?thesis using assms(2) by (simp add: events_since_def)
  next
    case (short_write rd wr pid c1 w' c2 st)
    then show ?thesis by (auto simp: events_since_def)
  next
    case (wait_failed rd wr pid c1 w' c2 e)
    then show ?thesis using assms(2) ne by (auto simp: events_since_def)
  next
    case (waited rd wr pid c1 w' c2 st)
    then show ?thesis using assms(2) ne by (auto simp: events_since_def)
  qed
qed

theorem short_write_is_failure_witness:
  "fst (execute_with_stdin (scripted (\<lambda>bs. Ok 2) (Ok ())) (open_argv ''/dev/sdb1'' ''m0'')
          [0x6b, 0x65, 0x79] 3 (boot [0])) = -1
   \<and> (\<exists>rd wr pid st.
        EvFork (ExecStdin (open_argv ''/dev/sdb1'' ''m0'') rd wr) (Ok pid)
          \<in> set (trace (snd (execute_with_stdin (scripted (\<lambda>bs. Ok 2) (Ok ()))
                    (open_argv ''/dev/sdb1'' ''m0'') [0x6b, 0x65, 0x79] 3 (boot [0]))))
        \<and> last (trace (snd (execute_with_stdin (scripted (\<lambda>bs. Ok 2) (Ok ()))
                    (open_argv ''/dev/sdb1'' ''m0'') [0x6b, 0x65, 0x79] 3 (boot [0]))))
            = EvWaitpid pid st)
   \<and> last (trace (snd (execute_with_stdin (scripted (\<lambda>bs. Ok 2) (Ok ()))
                    (open_argv ''/dev/sdb1'' ''m0'') [0x6b, 0x65, 0x79] 3 (boot [0]))))
       = EvWaitpid 100 (Ok 0)
   \<and> WIFEXITED 0 \<and> WEXITSTATUS 0 = 0"
proof -
  let ?K = "scripted (\<lambda>bs. Ok 2) (Ok ())"
  let ?s = "boot [0] :: status list proc"
  let ?u = "execute_with_stdin ?K (open_argv ''/dev/sdb1'' ''m0'') [0x6b, 0x65, 0x79] 3 ?s"
  have h1: "?u = (fst ?u, snd ?u)" by simp
  have h2: "EvWrite 4 [0x6b, 0x65, 0x79] (Ok 2) \<in> set (events_since ?s (snd ?u))"
    by (simp add: model_defs)
  have h3: "sint (written_of (Ok (2 :: size_t))) < uint (3 :: size_t)"
    by (simp add: written_of_def)
  have h4: "uint (3 :: size_t) < 2 ^ 63" by simp
  have es: "events_since ?s = trace" by (rule ext) (simp add: events_since_def boot_def)
  note w = short_write_is_failure [OF h1 h2 h3 h4]
  have l: "last (trace (snd ?u)) = EvWaitpid 100 (Ok 0)" by (simp add: model_defs)
  have x: "WIFEXITED 0 \<and> WEXITSTATUS 0 = 0" by (simp add: WIFEXITED_def WEXITSTATUS_def)
  show ?thesis using w l x unfolding es by blast
qed

end
